theory Spec2Isabelle
  imports Complex_Main "HOL-Library.AList" "HOL-Library.Sublist"
begin

section \<open>Python values used by the backend\<close>

text \<open>
  Exceptions are values. Only instances of Python's \<open>Exception\<close> class are modelled (the
  handlers of the source are all \<open>except Exception\<close>); \<open>str_exn\<close> is \<open>str(e)\<close>.
\<close>

datatype exn = Exception string | ZeroDivisionError | IndexError

fun str_exn :: "exn \<Rightarrow> string" where
  "str_exn (Exception m) = m"
| "str_exn ZeroDivisionError = ''division by zero''"
| "str_exn IndexError = ''list index out of range''"

text \<open>JSON values, as \<open>json.loads\<close> returns them.\<close>

datatype json =
  JNull
| JBool bool
| JNum rat
| JStr string
| JArr "json list"
| JObj "(string \<times> json) list"

text \<open>\<open>str(n)\<close> for a Python integer: decimal digits, a minus sign when negative.\<close>

definition digit_char :: "nat \<Rightarrow> char" where
  "digit_char d = ''0123456789'' ! d"

fun str_nat :: "nat \<Rightarrow> string" where
  "str_nat n = (if n < 10 then [digit_char n] else str_nat (n div 10) @ [digit_char (n mod 10)])"

declare str_nat.simps [simp del]

definition str_int :: "int \<Rightarrow> string" where
  "str_int i = (if i < 0 then CHR ''-'' # str_nat (nat (- i)) else str_nat (nat i))"

text \<open>The apostrophe of the f-strings.\<close>

definition apostrophe :: char where
  "apostrophe = CHR 0x27"

section \<open>FAQ rows, analysed FAQs, clusters and gaps\<close>

text \<open>
  A row of the \<open>faqs\<close> table (services/db.py), reduced to the columns the batch job reads.
\<close>

record faq =
  faq_id :: int
  question :: string
  answer :: string
  category :: string
  priority :: int

text \<open>
  The dictionary \<open>analyze_faq_content\<close> returns: the row's fields, with \<open>entities\<close> and
  \<open>sentiment\<close> added.
\<close>

record analyzed_faq = faq +
  entities :: json
  sentiment :: json

text \<open>
  A cluster dictionary. \<open>count\<close> is a Python integer; \<open>avg_priority\<close> is the quotient of two
  integers, a finite Python float in the source and an exact rational here.
\<close>

record cluster =
  name :: string
  faqs :: "analyzed_faq list"
  count :: int
  avg_priority :: rat

text \<open>
  A gap dictionary is tagged by its \<open>type\<close> key; the two shapes carry different keys.
\<close>

datatype gap =
  Low_coverage string int int string
| Low_priority string rat string

fun gap_type :: "gap \<Rightarrow> string" where
  "gap_type (Low_coverage c n m d) = ''low_coverage''"
| "gap_type (Low_priority c a d) = ''low_priority''"

subsection \<open>\<open>FAQClusterer.create_clusters\<close>\<close>

text \<open>
  \<open>clusters\<close> is a Python dictionary, which keeps its keys in insertion order: an association
  list, where \<open>AList.update\<close> replaces the value of a key that is present and appends a new
  key at the end. One iteration of the loop: a falsy entry (\<open>None\<close>) is skipped; a category
  not yet a key gets the empty list; the FAQ is appended to its category's list.
\<close>

definition cluster_step ::
  "(string \<times> analyzed_faq list) list \<Rightarrow> analyzed_faq option \<Rightarrow> (string \<times> analyzed_faq list) list"
where
  "cluster_step clusters entry =
     (case entry of
        None \<Rightarrow> clusters
      | Some f \<Rightarrow>
          (let c = category f;
               clusters1 = (if map_of clusters c = None then AList.update c [] clusters
                            else clusters)
           in AList.map_entry c (\<lambda>fs. fs @ [f]) clusters1))"

text \<open>
  The dictionary literal of the list comprehension. \<open>sum(...) / len(faqs)\<close> raises
  \<open>ZeroDivisionError\<close> on an empty list.
\<close>

definition make_cluster :: "string \<times> analyzed_faq list \<Rightarrow> exn + cluster" where
  "make_cluster item =
     (case item of (c, fs) \<Rightarrow>
        if int (length fs) = 0 then Inl ZeroDivisionError
        else Inr \<lparr>name = c, faqs = fs, count = int (length fs),
                  avg_priority = of_int (sum_list (map priority fs)) / of_int (int (length fs))\<rparr>)"

fun make_clusters :: "(string \<times> analyzed_faq list) list \<Rightarrow> exn + cluster list" where
  "make_clusters [] = Inr []"
| "make_clusters (item # items) =
     (case make_cluster item of
        Inl e \<Rightarrow> Inl e
      | Inr c \<Rightarrow> (case make_clusters items of Inl e \<Rightarrow> Inl e | Inr cs \<Rightarrow> Inr (c # cs)))"

definition create_clusters :: "analyzed_faq option list \<Rightarrow> exn + cluster list" where
  "create_clusters entries = make_clusters (foldl cluster_step [] entries)"

subsection \<open>\<open>FAQClusterer.identify_gaps\<close>\<close>

definition coverage_gap :: "cluster \<Rightarrow> gap" where
  "coverage_gap c =
     Low_coverage (name c) (count c) 5
       (''Category '' @ [apostrophe] @ name c @ [apostrophe] @ '' has only '' @
        str_int (count c) @ '' FAQs'')"

definition priority_gap :: "cluster \<Rightarrow> gap" where
  "priority_gap c =
     Low_priority (name c) (avg_priority c)
       (''Category '' @ [apostrophe] @ name c @ [apostrophe] @ '' has low priority FAQs'')"

text \<open>The two loops, each appending to the list \<open>gaps\<close>.\<close>

fun coverage_loop :: "cluster list \<Rightarrow> gap list \<Rightarrow> gap list" where
  "coverage_loop [] gaps = gaps"
| "coverage_loop (c # cs) gaps =
     coverage_loop cs (if count c < 3 then gaps @ [coverage_gap c] else gaps)"

fun priority_loop :: "cluster list \<Rightarrow> gap list \<Rightarrow> gap list" where
  "priority_loop [] gaps = gaps"
| "priority_loop (c # cs) gaps =
     priority_loop cs (if avg_priority c < 2 \<and> count c > 5 then gaps @ [priority_gap c] else gaps)"

definition identify_gaps :: "cluster list \<Rightarrow> gap list" where
  "identify_gaps clusters = priority_loop clusters (coverage_loop clusters [])"

subsection \<open>\<open>FAQClusterer.generate_recommendations\<close>\<close>

text \<open>
  The format specification \<open>.1f\<close> of a float is Python's own; it is the parameter \<open>fmt1\<close>.
\<close>

definition recommendation :: "(rat \<Rightarrow> string) \<Rightarrow> gap \<Rightarrow> string list" where
  "recommendation fmt1 g =
     (if gap_type g = ''low_coverage'' then
        (case g of
           Low_coverage c n m d \<Rightarrow>
             [''Add more FAQs to category '' @ [apostrophe] @ c @ [apostrophe] @ '' '' @
              ''(currently '' @ str_int n @ '', recommend '' @ str_int m @ '')'']
         | Low_priority c a d \<Rightarrow> [])
      else if gap_type g = ''low_priority'' then
        (case g of
           Low_priority c a d \<Rightarrow>
             [''Review and prioritize FAQs in category '' @ [apostrophe] @ c @ [apostrophe] @
              '' '' @ ''(average priority: '' @ fmt1 a @ '')'']
         | Low_coverage c n m d \<Rightarrow> [])
      else [])"

fun recommendations_loop :: "(rat \<Rightarrow> string) \<Rightarrow> gap list \<Rightarrow> string list \<Rightarrow> string list" where
  "recommendations_loop fmt1 [] recs = recs"
| "recommendations_loop fmt1 (g # gs) recs =
     recommendations_loop fmt1 gs (recs @ recommendation fmt1 g)"

definition generate_recommendations :: "(rat \<Rightarrow> string) \<Rightarrow> gap list \<Rightarrow> string list" where
  "generate_recommendations fmt1 gaps = recommendations_loop fmt1 gaps []"

subsection \<open>\<open>FAQClusterer.analyze_faq_content\<close> and the analysis loop\<close>

text \<open>
  The world outside the process (database, language-model service, clock, file system) is
  a state \<open>'w\<close> passed through every call that reaches it. A call returns its result, or
  the exception it raised, with the world after it.
\<close>

type_synonym ('w, 'a) call = "'w \<Rightarrow> (exn + 'a) \<times> 'w"

record datetime =
  isoformat :: string
  file_stamp :: string

record summary =
  total_faqs :: int
  total_clusters :: int
  total_gaps :: int

record report =
  timestamp :: string
  clusters :: "cluster list"
  gaps :: "gap list"
  recommendations :: "string list"
  summary :: summary

text \<open>
  What the batch job calls and does not define: the database session and query behind
  \<open>load_faqs\<close>, the two annotation calls imported from services/openai.py, the clock, the
  \<open>.1f\<close> float format, and writing the JSON file. \<open>file_stamp\<close> is the clock's reading under
  \<open>strftime('%Y%m%d_%H%M%S')\<close>.
\<close>

record 'w collaborators =
  load_faqs :: "('w, faq list) call"
  extract_entities :: "string \<Rightarrow> ('w, json) call"
  analyze_sentiment :: "string \<Rightarrow> ('w, json) call"
  now :: "'w \<Rightarrow> datetime \<times> 'w"
  format_1f :: "rat \<Rightarrow> string"
  write_json :: "string \<Rightarrow> report \<Rightarrow> ('w, unit) call"

text \<open>
  The \<open>try\<close> block: an exception of either call is caught (and printed), and \<open>None\<close> is
  returned; the second call is made only when the first has returned.
\<close>

definition analyze_faq_content ::
  "'w collaborators \<Rightarrow> faq \<Rightarrow> 'w \<Rightarrow> analyzed_faq option \<times> 'w"
where
  "analyze_faq_content env f w =
     (case extract_entities env (question f @ '' '' @ answer f) w of
        (Inl e, w1) \<Rightarrow> (None, w1)
      | (Inr ents, w1) \<Rightarrow>
          (case analyze_sentiment env (question f @ '' '' @ answer f) w1 of
             (Inl e, w2) \<Rightarrow> (None, w2)
           | (Inr sent, w2) \<Rightarrow>
               (Some \<lparr>faq_id = faq_id f, question = question f, answer = answer f,
                      category = category f, priority = priority f,
                      entities = ents, sentiment = sent\<rparr>, w2)))"

text \<open>The loop of \<open>run_clustering\<close> that fills \<open>analyzed_faqs\<close>.\<close>

fun analyze_loop ::
  "'w collaborators \<Rightarrow> faq list \<Rightarrow> analyzed_faq list \<Rightarrow> 'w \<Rightarrow> analyzed_faq list \<times> 'w"
where
  "analyze_loop env [] analyzed w = (analyzed, w)"
| "analyze_loop env (f # fs) analyzed w =
     (case analyze_faq_content env f w of
        (None, w1) \<Rightarrow> analyze_loop env fs analyzed w1
      | (Some a, w1) \<Rightarrow> analyze_loop env fs (analyzed @ [a]) w1)"

subsection \<open>\<open>FAQClusterer.save_results\<close> and \<open>FAQClusterer.run_clustering\<close>\<close>

text \<open>The two attributes of a \<open>FAQClusterer\<close> object.\<close>

record clusterer =
  self_clusters :: "cluster list"
  self_gaps :: "gap list"

text \<open>
  The \<open>results\<close> dictionary. Its entries are evaluated in order, so the clock is read
  before the rest.
\<close>

definition results_dict :: "clusterer \<Rightarrow> string list \<Rightarrow> datetime \<Rightarrow> report" where
  "results_dict self recs t =
     \<lparr>timestamp = isoformat t,
      clusters = self_clusters self,
      gaps = self_gaps self,
      recommendations = recs,
      summary = \<lparr>total_faqs = sum_list (map count (self_clusters self)),
                 total_clusters = int (length (self_clusters self)),
                 total_gaps = int (length (self_gaps self))\<rparr>\<rparr>"

text \<open>
  \<open>save_results\<close> returns nothing in the source; here it returns the report it has written,
  so that properties of the saved report can be stated. An exception of the file write
  propagates.
\<close>

definition save_results ::
  "'w collaborators \<Rightarrow> clusterer \<Rightarrow> string list \<Rightarrow> ('w, report) call"
where
  "save_results env self recs w =
     (case now env w of (t1, w1) \<Rightarrow>
        (let results = results_dict self recs t1 in
         case now env w1 of (t2, w2) \<Rightarrow>
           (let output_file = ''clustering_results_'' @ file_stamp t2 @ ''.json'' in
            case write_json env output_file results w2 of
              (Inl e, w3) \<Rightarrow> (Inl e, w3)
            | (Inr u, w3) \<Rightarrow> (Inr results, w3))))"

text \<open>
  The whole run. The outer handler prints and re-raises, so an exception of loading, of
  clustering or of saving is the result of the run. The object keeps the attributes
  assigned before the exception.
\<close>

definition run_clustering ::
  "'w collaborators \<Rightarrow> clusterer \<Rightarrow> 'w \<Rightarrow> (exn + report) \<times> clusterer \<times> 'w"
where
  "run_clustering env self w =
     (case load_faqs env w of
        (Inl e, w0) \<Rightarrow> (Inl e, self, w0)
      | (Inr rows, w0) \<Rightarrow>
          (case analyze_loop env rows [] w0 of (analyzed_faqs, w1) \<Rightarrow>
             (case create_clusters (map Some analyzed_faqs) of
                Inl e \<Rightarrow> (Inl e, self, w1)
              | Inr cs \<Rightarrow>
                  (let self1 = self\<lparr>self_clusters := cs\<rparr>;
                       self2 = self1\<lparr>self_gaps := identify_gaps (self_clusters self1)\<rparr>;
                       recs = generate_recommendations (format_1f env) (self_gaps self2)
                   in case save_results env self2 recs w1 of
                        (Inl e, w2) \<Rightarrow> (Inl e, self2, w2)
                      | (Inr r, w2) \<Rightarrow> (Inr r, self2, w2)))))"

section \<open>The chat assistant (services/openai.py)\<close>

record message =
  role :: string
  content :: string

text \<open>The keyword arguments of \<open>openai.ChatCompletion.acreate\<close>.\<close>

record chat_request =
  model :: string
  messages :: "message list"
  max_tokens :: int
  temperature :: rat

record assistant =
  system_prompt :: string
  conversation_history :: "message list"

text \<open>The slice \<open>xs[-10:]\<close>: the last ten elements, or all of them when there are fewer.\<close>

definition last_ten :: "'a list \<Rightarrow> 'a list" where
  "last_ten xs = drop (length xs - 10) xs"

text \<open>
  A dictionary is truthy when it is not empty; \<open>None\<close> is falsy.
\<close>

fun truthy :: "(string \<times> json) list option \<Rightarrow> bool" where
  "truthy None = False"
| "truthy (Some []) = False"
| "truthy (Some (kv # kvs)) = True"

text \<open>
  The list \<open>messages\<close> as built before the call: the system prompt, the history slice
  appended message by message, the user context when there is one, the user's message.
  \<open>json_dumps\<close> is \<open>json.dumps\<close>.
\<close>

definition build_messages ::
  "((string \<times> json) list \<Rightarrow> string) \<Rightarrow> assistant \<Rightarrow> string \<Rightarrow> (string \<times> json) list option \<Rightarrow>
   message list"
where
  "build_messages json_dumps self user_message user_context =
     (let messages0 = [\<lparr>role = ''system'', content = system_prompt self\<rparr>];
          messages1 = foldl (\<lambda>ms msg. ms @ [msg]) messages0 (last_ten (conversation_history self));
          messages2 =
            (if truthy user_context then
               messages1 @
               [\<lparr>role = ''system'',
                 content = ''User context: '' @ json_dumps (the user_context)\<rparr>]
             else messages1)
      in messages2 @ [\<lparr>role = ''user'', content = user_message\<rparr>])"

definition apology :: "exn \<Rightarrow> string" where
  "apology e =
     ''I apologize, but I'' @ [apostrophe] @
     ''m having trouble processing your request right now. Please try again later. Error: '' @
     str_exn e"

text \<open>
  \<open>get_response\<close>. The service answers with the list of its choices, each the text of
  \<open>choice.message.content\<close>; \<open>response.choices[0]\<close> raises \<open>IndexError\<close> on an empty list.
  Every exception of the \<open>try\<close> block ends in the handler, which returns the apology and
  leaves the object as it is. \<open>openai_model\<close> is the module's \<open>OPENAI_MODEL\<close>.
\<close>

definition get_response ::
  "string \<Rightarrow> (chat_request \<Rightarrow> ('w, string list) call) \<Rightarrow> ((string \<times> json) list \<Rightarrow> string) \<Rightarrow>
   assistant \<Rightarrow> string \<Rightarrow> (string \<times> json) list option \<Rightarrow> 'w \<Rightarrow> string \<times> assistant \<times> 'w"
where
  "get_response openai_model acreate json_dumps self user_message user_context w =
     (case acreate \<lparr>model = openai_model,
                    messages = build_messages json_dumps self user_message user_context,
                    max_tokens = 500, temperature = 7 / 10\<rparr> w of
        (Inl e, w1) \<Rightarrow> (apology e, self, w1)
      | (Inr choices, w1) \<Rightarrow>
          (case choices of
             [] \<Rightarrow> (apology IndexError, self, w1)
           | ai_response # others \<Rightarrow>
               (ai_response,
                self\<lparr>conversation_history :=
                       conversation_history self @
                       [\<lparr>role = ''user'', content = user_message\<rparr>,
                        \<lparr>role = ''assistant'', content = ai_response\<rparr>]\<rparr>,
                w1)))"

text \<open>A conversation: \<open>get_response\<close> called once for each user message, in order.\<close>

fun get_responses ::
  "string \<Rightarrow> (chat_request \<Rightarrow> ('w, string list) call) \<Rightarrow> ((string \<times> json) list \<Rightarrow> string) \<Rightarrow>
   assistant \<Rightarrow> string list \<Rightarrow> 'w \<Rightarrow> string list \<times> assistant \<times> 'w"
where
  "get_responses openai_model acreate json_dumps self [] w = ([], self, w)"
| "get_responses openai_model acreate json_dumps self (m # ms) w =
     (case get_response openai_model acreate json_dumps self m None w of
        (reply, self1, w1) \<Rightarrow>
          (case get_responses openai_model acreate json_dumps self1 ms w1 of
             (replies, self2, w2) \<Rightarrow> (reply # replies, self2, w2)))"

subsection \<open>The annotation calls the batch job imports\<close>

text \<open>
  \<open>extract_entities\<close> and \<open>analyze_sentiment\<close> of services/openai.py. Each wraps its
  completion call and \<open>json.loads\<close> in a handler that returns a fallback value, so neither
  raises an \<open>Exception\<close> to its caller.
\<close>

definition entities_prompt :: string where
  "entities_prompt =
     ''Extract named entities (people, places, dates, medical terms) from the text. '' @
     ''Return as JSON array of objects with '' @ [apostrophe] @ ''entity'' @ [apostrophe] @
     '', '' @ [apostrophe] @ ''type'' @ [apostrophe] @ '', and '' @ [apostrophe] @
     ''confidence'' @ [apostrophe] @ ''.''"

definition sentiment_prompt :: string where
  "sentiment_prompt =
     ''Analyze the sentiment of the following text. Return only a JSON object with '' @
     [apostrophe] @ ''sentiment'' @ [apostrophe] @ '' (positive/negative/neutral) and '' @
     [apostrophe] @ ''confidence'' @ [apostrophe] @ '' (0-1).''"

definition extract_entities_openai ::
  "string \<Rightarrow> (chat_request \<Rightarrow> ('w, string list) call) \<Rightarrow> (string \<Rightarrow> exn + json) \<Rightarrow>
   string \<Rightarrow> ('w, json) call"
where
  "extract_entities_openai openai_model acreate json_loads txt w =
     (case acreate \<lparr>model = openai_model,
                    messages = [\<lparr>role = ''system'', content = entities_prompt\<rparr>,
                                \<lparr>role = ''user'', content = txt\<rparr>],
                    max_tokens = 200, temperature = 1 / 10\<rparr> w of
        (Inl e, w1) \<Rightarrow> (Inr (JArr []), w1)
      | (Inr choices, w1) \<Rightarrow>
          (case choices of
             [] \<Rightarrow> (Inr (JArr []), w1)
           | c # others \<Rightarrow>
               (case json_loads c of
                  Inl e \<Rightarrow> (Inr (JArr []), w1)
                | Inr result \<Rightarrow> (Inr result, w1))))"

definition sentiment_fallback :: "exn \<Rightarrow> json" where
  "sentiment_fallback e =
     JObj [(''sentiment'', JStr ''neutral''), (''confidence'', JNum (1 / 2)),
           (''error'', JStr (str_exn e))]"

definition analyze_sentiment_openai ::
  "string \<Rightarrow> (chat_request \<Rightarrow> ('w, string list) call) \<Rightarrow> (string \<Rightarrow> exn + json) \<Rightarrow>
   string \<Rightarrow> ('w, json) call"
where
  "analyze_sentiment_openai openai_model acreate json_loads txt w =
     (case acreate \<lparr>model = openai_model,
                    messages = [\<lparr>role = ''system'', content = sentiment_prompt\<rparr>,
                                \<lparr>role = ''user'', content = txt\<rparr>],
                    max_tokens = 100, temperature = 1 / 10\<rparr> w of
        (Inl e, w1) \<Rightarrow> (Inr (sentiment_fallback e), w1)
      | (Inr choices, w1) \<Rightarrow>
          (case choices of
             [] \<Rightarrow> (Inr (sentiment_fallback IndexError), w1)
           | c # others \<Rightarrow>
               (case json_loads c of
                  Inl e \<Rightarrow> (Inr (sentiment_fallback e), w1)
                | Inr result \<Rightarrow> (Inr result, w1))))"

section \<open>Speech synthesis (services/tts.py)\<close>

text \<open>
  A Python float as far as comparison sees it: a finite value, an infinity, or NaN.
  \<open>float_less\<close> is Python's \<open><\<close>; every comparison with NaN is false.
\<close>

datatype pyfloat = Finite rat | PosInf | NegInf | NaN

fun float_less :: "pyfloat \<Rightarrow> pyfloat \<Rightarrow> bool" where
  "float_less NaN y = False"
| "float_less x NaN = False"
| "float_less (Finite a) (Finite b) = (a < b)"
| "float_less x NegInf = False"
| "float_less NegInf y = True"
| "float_less PosInf y = False"
| "float_less x PosInf = True"

type_synonym bytes = "char list"

text \<open>The keyword arguments of \<open>openai.Audio.acreate\<close>.\<close>

record speech_request =
  speech_model :: string
  voice :: string
  input_text :: string
  speed :: pyfloat

definition valid_voices :: "string list" where
  "valid_voices = [''alloy'', ''echo'', ''fable'', ''onyx'', ''nova'', ''shimmer'']"

text \<open>The request \<open>text_to_speech\<close> sends, after its two validation steps.\<close>

definition validated_request :: "string \<Rightarrow> string \<Rightarrow> pyfloat \<Rightarrow> speech_request" where
  "validated_request txt voice0 speed0 =
     (let voice1 = (if voice0 \<notin> set valid_voices then ''alloy'' else voice0);
          speed1 = (if float_less speed0 (Finite (1 / 4)) \<or> float_less (Finite 4) speed0
                    then Finite 1 else speed0)
      in \<lparr>speech_model = ''tts-1'', voice = voice1, input_text = txt, speed = speed1\<rparr>)"

definition text_to_speech ::
  "(speech_request \<Rightarrow> ('w, bytes) call) \<Rightarrow> string \<Rightarrow> string \<Rightarrow> pyfloat \<Rightarrow> 'w \<Rightarrow> bytes \<times> 'w"
where
  "text_to_speech acreate txt voice0 speed0 w =
     (case acreate (validated_request txt voice0 speed0) w of
        (Inl e, w1) \<Rightarrow> ([], w1)
      | (Inr audio_data, w1) \<Rightarrow> (audio_data, w1))"

section \<open>Audio validation (services/whisper.py)\<close>

definition audio_headers :: "bytes list" where
  "audio_headers = [''RIFF'', ''ID3'', [CHR 0xFF, CHR 0xFB], ''OggS'', ''fLaC'']"

text \<open>The loop over the headers: true as soon as the data starts with one of them.\<close>

fun header_loop :: "bytes list \<Rightarrow> bytes \<Rightarrow> bool" where
  "header_loop [] audio_data = False"
| "header_loop (header # headers) audio_data =
     (if prefix header audio_data then True else header_loop headers audio_data)"

definition validate_audio_format :: "bytes \<Rightarrow> bool" where
  "validate_audio_format audio_data =
     (if audio_data = [] then False
      else if length audio_data > 25 * 1024 * 1024 then False
      else if header_loop audio_headers audio_data then True
      else True)"

section \<open>Definitions that follow the specification's words\<close>

text \<open>The entries of a list that are not \<open>None\<close>, in order.\<close>

fun present :: "'a option list \<Rightarrow> 'a list" where
  "present [] = []"
| "present (None # es) = present es"
| "present (Some x # es) = x # present es"

text \<open>The distinct elements of a list, each at the place of its first occurrence.\<close>

fun first_occurrences :: "'a list \<Rightarrow> 'a list" where
  "first_occurrences [] = []"
| "first_occurrences (x # xs) = x # filter (\<lambda>y. y \<noteq> x) (first_occurrences xs)"

text \<open>
  The specification's cluster of a category: the FAQs whose category is exactly that
  string, their number, and the arithmetic mean of their priorities.
\<close>

definition members :: "string \<Rightarrow> analyzed_faq list \<Rightarrow> analyzed_faq list" where
  "members c fs = filter (\<lambda>f. category f = c) fs"

definition cluster_of :: "analyzed_faq list \<Rightarrow> string \<Rightarrow> cluster" where
  "cluster_of fs c =
     \<lparr>name = c, faqs = members c fs, count = int (length (members c fs)),
      avg_priority =
        of_int (sum_list (map priority (members c fs))) / of_int (int (length (members c fs)))\<rparr>"

definition clusters_spec :: "analyzed_faq list \<Rightarrow> cluster list" where
  "clusters_spec fs = map (cluster_of fs) (first_occurrences (map category fs))"

text \<open>
  An annotation call raises while the FAQ is analysed in world \<open>w\<close>: entity extraction
  raises, or it returns and sentiment analysis raises.
\<close>

definition annotation_raises :: "'w collaborators \<Rightarrow> faq \<Rightarrow> 'w \<Rightarrow> bool" where
  "annotation_raises env f w =
     (case extract_entities env (question f @ '' '' @ answer f) w of
        (Inl e, w1) \<Rightarrow> True
      | (Inr ents, w1) \<Rightarrow>
          (case analyze_sentiment env (question f @ '' '' @ answer f) w1 of
             (Inl e, w2) \<Rightarrow> True
           | (Inr sent, w2) \<Rightarrow> False))"

text \<open>The sentence of a gap, by the template of its type.\<close>

fun recommendation_text :: "(rat \<Rightarrow> string) \<Rightarrow> gap \<Rightarrow> string" where
  "recommendation_text fmt (Low_coverage c n m d) =
     ''Add more FAQs to category '' @ [apostrophe] @ c @ [apostrophe] @
     '' (currently '' @ str_int n @ '', recommend '' @ str_int m @ '')''"
| "recommendation_text fmt (Low_priority c a d) =
     ''Review and prioritize FAQs in category '' @ [apostrophe] @ c @ [apostrophe] @
     '' (average priority: '' @ fmt a @ '')''"

text \<open>A speed inside the closed interval from 0.25 to 4.0.\<close>

definition in_speed_range :: "pyfloat \<Rightarrow> bool" where
  "in_speed_range s =
     (case s of
        Finite r \<Rightarrow> 1 / 4 \<le> r \<and> r \<le> 4
      | PosInf \<Rightarrow> False
      | NegInf \<Rightarrow> False
      | NaN \<Rightarrow> False)"

section \<open>An example run\<close>

text \<open>
  Three rows, and collaborators over a world that counts the calls to the language-model
  service: entity extraction raises for the second row, everything else returns.
\<close>

definition example_row :: "int \<Rightarrow> string \<Rightarrow> int \<Rightarrow> faq" where
  "example_row i c p =
     \<lparr>faq_id = i, question = ''q'' @ str_int i, answer = ''a'', category = c, priority = p\<rparr>"

definition example_env :: "nat collaborators" where
  "example_env =
     \<lparr>load_faqs = (\<lambda>w. (Inr [example_row 1 ''A'' 1, example_row 2 ''A'' 3, example_row 3 ''B'' 5], w)),
      extract_entities =
        (\<lambda>t w. (if t = ''q2 a'' then Inl (Exception ''timeout'') else Inr (JArr []), Suc w)),
      analyze_sentiment = (\<lambda>t w. (Inr (JObj []), Suc w)),
      now = (\<lambda>w. (\<lparr>isoformat = ''2024-01-01T00:00:00'', file_stamp = ''20240101_000000''\<rparr>, w)),
      format_1f = (\<lambda>a. ''1.0''),
      write_json = (\<lambda>path r w. (Inr (), w))\<rparr>"

definition example_analyzed :: "int \<Rightarrow> string \<Rightarrow> int \<Rightarrow> analyzed_faq" where
  "example_analyzed i c p =
     \<lparr>faq_id = i, question = ''q'' @ str_int i, answer = ''a'', category = c, priority = p,
      entities = JArr [], sentiment = JObj []\<rparr>"

text \<open>
  An assistant with twelve stored messages, a service that always answers and one that
  always raises.
\<close>

definition example_assistant :: assistant where
  "example_assistant =
     \<lparr>system_prompt = ''You are ElderTech'',
      conversation_history = replicate 12 \<lparr>role = ''user'', content = ''hello''\<rparr>\<rparr>"

definition example_chat :: "chat_request \<Rightarrow> (nat, string list) call" where
  "example_chat req w = (Inr [''Good morning''], Suc w)"

definition failing_chat :: "chat_request \<Rightarrow> (nat, string list) call" where
  "failing_chat req w = (Inl (Exception ''rate limit''), Suc w)"

definition example_dumps :: "(string \<times> json) list \<Rightarrow> string" where
  "example_dumps kvs = ''{}''"

section \<open>Properties of gap detection and recommendations\<close>

lemma coverage_loop_eq:
  "coverage_loop cs gs = gs @ map coverage_gap (filter (\<lambda>c. count c < 3) cs)"
  by (induction cs arbitrary: gs) simp_all

lemma priority_loop_eq:
  "priority_loop cs gs =
     gs @ map priority_gap (filter (\<lambda>c. avg_priority c < 2 \<and> count c > 5) cs)"
  by (induction cs arbitrary: gs) simp_all

lemma identify_gaps_append:
  "identify_gaps cs =
     map coverage_gap (filter (\<lambda>c. count c < 3) cs) @
     map priority_gap (filter (\<lambda>c. avg_priority c < 2 \<and> count c > 5) cs)"
  by (simp add: identify_gaps_def coverage_loop_eq priority_loop_eq)

lemma gap_type_coverage_gap [simp]: "gap_type (coverage_gap c) = ''low_coverage''"
  by (simp add: coverage_gap_def)

lemma gap_type_priority_gap [simp]: "gap_type (priority_gap c) = ''low_priority''"
  by (simp add: priority_gap_def)

lemma filter_map_all: "(\<And>x. P (f x)) \<Longrightarrow> filter P (map f xs) = map f xs"
  by (induction xs) simp_all

lemma filter_map_none: "(\<And>x. \<not> P (f x)) \<Longrightarrow> filter P (map f xs) = []"
  by (induction xs) simp_all

lemma recommendations_loop_eq:
  "recommendations_loop fmt gs recs = recs @ concat (map (recommendation fmt) gs)"
  by (induction gs arbitrary: recs) simp_all

lemma recommendation_single: "recommendation fmt g = [recommendation_text fmt g]"
  by (cases g) (simp_all add: recommendation_def)

lemma generate_recommendations_map:
  "generate_recommendations fmt gs = map (recommendation_text fmt) gs"
  by (induction gs)
    (simp_all add: generate_recommendations_def recommendations_loop_eq recommendation_single)

text \<open>
  Claim C1, as amended. For a single cluster, gap detection returns the low-coverage gap
  exactly when the count is below 3, followed by the low-priority gap exactly when the
  average priority is below 2 and the count is above 5; the two tests do not look at each
  other. At most one of them fires, so a cluster triggers no gap or one gap, never both.
  In the gap list of any cluster list, the low-coverage gaps are those of the clusters
  with count below 3, and the low-priority gaps are those of the clusters with average
  priority below 2 and count above 5.
\<close>

theorem identify_gaps_rules:
  "identify_gaps [c] =
     (if count c < 3 then [coverage_gap c] else []) @
     (if avg_priority c < 2 \<and> count c > 5 then [priority_gap c] else [])
   \<and> length (identify_gaps [c]) \<le> 1
   \<and> filter (\<lambda>g. gap_type g = ''low_coverage'') (identify_gaps cs) =
       map coverage_gap (filter (\<lambda>c. count c < 3) cs)
   \<and> filter (\<lambda>g. gap_type g = ''low_priority'') (identify_gaps cs) =
       map priority_gap (filter (\<lambda>c. avg_priority c < 2 \<and> count c > 5) cs)"
  by (simp add: identify_gaps_append filter_map_all filter_map_none)

text \<open>
  Claim C1 as it is written says that a cluster may trigger both gap types. No cluster
  does: the low-coverage rule needs a count below 3 and the low-priority rule a count
  above 5.
\<close>

theorem both_gap_types_counterexample:
  "\<not> (\<exists>c. ''low_coverage'' \<in> gap_type ` set (identify_gaps [c]) \<and>
           ''low_priority'' \<in> gap_type ` set (identify_gaps [c]))"
  by (auto simp add: identify_gaps_append split: if_splits)

text \<open>
  Claim C5. A low-coverage gap yields the one sentence "Add more FAQs to category 'name'
  (currently count, recommend min)" and a low-priority gap the one sentence "Review and
  prioritize FAQs in category 'name' (average priority: avg)", the average rendered by
  the one-decimal float format. For the gaps that gap detection builds, the recommended
  minimum is 5. The recommendations of a gap list are those of its gaps one after the
  other, one for each gap.
\<close>

theorem recommendation_templates:
  "generate_recommendations fmt [Low_coverage c n m d] =
     [''Add more FAQs to category '' @ [apostrophe] @ c @ [apostrophe] @
      '' (currently '' @ str_int n @ '', recommend '' @ str_int m @ '')'']
   \<and> generate_recommendations fmt [Low_priority c a d] =
     [''Review and prioritize FAQs in category '' @ [apostrophe] @ c @ [apostrophe] @
      '' (average priority: '' @ fmt a @ '')'']
   \<and> generate_recommendations fmt [coverage_gap cl] =
     [''Add more FAQs to category '' @ [apostrophe] @ name cl @ [apostrophe] @
      '' (currently '' @ str_int (count cl) @ '', recommend 5)'']
   \<and> generate_recommendations fmt [priority_gap cl] =
     [''Review and prioritize FAQs in category '' @ [apostrophe] @ name cl @ [apostrophe] @
      '' (average priority: '' @ fmt (avg_priority cl) @ '')'']
   \<and> generate_recommendations fmt (gs @ gs') =
       generate_recommendations fmt gs @ generate_recommendations fmt gs'
   \<and> length (generate_recommendations fmt gs) = length gs"
proof -
  have five: "str_int 5 = ''5''"
    by (simp add: str_int_def str_nat.simps digit_char_def)
  show ?thesis
    by (simp add: generate_recommendations_map coverage_gap_def priority_gap_def five)
qed

text \<open>
  Claim C10. The gap list is the low-coverage gaps of the clusters with count below 3, in
  cluster order, followed by the low-priority gaps of the clusters with average priority
  below 2 and count above 5, in cluster order: every low-coverage gap comes before every
  low-priority gap. The recommendation list has the sentences of these gaps in the same
  order, and as many entries as there are gaps.
\<close>

theorem gaps_and_recommendations_order:
  "identify_gaps cs =
     map coverage_gap (filter (\<lambda>c. count c < 3) cs) @
     map priority_gap (filter (\<lambda>c. avg_priority c < 2 \<and> count c > 5) cs)
   \<and> map gap_type (identify_gaps cs) =
       replicate (length (filter (\<lambda>c. count c < 3) cs)) ''low_coverage'' @
       replicate (length (filter (\<lambda>c. avg_priority c < 2 \<and> count c > 5) cs)) ''low_priority''
   \<and> generate_recommendations fmt (identify_gaps cs) =
       map (\<lambda>c. recommendation_text fmt (coverage_gap c)) (filter (\<lambda>c. count c < 3) cs) @
       map (\<lambda>c. recommendation_text fmt (priority_gap c))
         (filter (\<lambda>c. avg_priority c < 2 \<and> count c > 5) cs)
   \<and> length (generate_recommendations fmt (identify_gaps cs)) = length (identify_gaps cs)"
  by (simp add: generate_recommendations_map identify_gaps_append comp_def map_replicate_const)

section \<open>Properties of clustering\<close>

lemma present_append: "present (es @ es') = present es @ present es'"
  by (induction es rule: present.induct) simp_all

lemma present_map_Some [simp]: "present (map Some fs) = fs"
  by (induction fs) simp_all

lemma set_first_occurrences [simp]: "set (first_occurrences xs) = set xs"
  by (induction xs) auto

lemma distinct_first_occurrences [simp]: "distinct (first_occurrences xs)"
  by (induction xs) auto

lemma first_occurrences_snoc:
  "first_occurrences (xs @ [x]) =
     (if x \<in> set xs then first_occurrences xs else first_occurrences xs @ [x])"
  by (induction xs) auto

text \<open>Dictionary operations on a list of keys paired with a function of the key.\<close>

lemma map_of_keyed:
  "map_of (map (\<lambda>k. (k, g k)) ks) c = (if c \<in> set ks then Some (g c) else None)"
  by (induction ks) simp_all

lemma update_keyed_new:
  "c \<notin> set ks \<Longrightarrow>
     AList.update c v (map (\<lambda>k. (k, g k)) ks) = map (\<lambda>k. (k, g k)) ks @ [(c, v)]"
  by (induction ks) auto

lemma map_entry_keyed_new:
  "c \<notin> set ks \<Longrightarrow>
     AList.map_entry c h (map (\<lambda>k. (k, g k)) ks @ [(c, v)]) =
     map (\<lambda>k. (k, g k)) ks @ [(c, h v)]"
  by (induction ks) auto

lemma map_entry_keyed:
  "distinct ks \<Longrightarrow>
     AList.map_entry c h (map (\<lambda>k. (k, g k)) ks) =
     map (\<lambda>k. (k, if k = c then h (g k) else g k)) ks"
proof (induction ks)
  case Nil
  then show ?case by simp
next
  case (Cons a ks)
  show ?case
  proof (cases "a = c")
    case True
    with Cons.prems have "c \<notin> set ks" by simp
    then have "map (\<lambda>k. (k, if k = c then h (g k) else g k)) ks = map (\<lambda>k. (k, g k)) ks"
      by (intro map_cong) auto
    with True show ?thesis by simp
  next
    case False
    with Cons show ?thesis by simp
  qed
qed

lemma members_snoc: "members c (fs @ [f]) = members c fs @ (if category f = c then [f] else [])"
  by (simp add: members_def)

lemma members_empty: "c \<notin> category ` set fs \<Longrightarrow> members c fs = []"
  by (auto simp: members_def filter_empty_conv)

text \<open>One iteration of the loop keeps the dictionary in the specification's shape.\<close>

lemma cluster_step_keyed:
  "cluster_step (map (\<lambda>k. (k, members k fs)) (first_occurrences (map category fs))) (Some f) =
     map (\<lambda>k. (k, members k (fs @ [f]))) (first_occurrences (map category (fs @ [f])))"
proof (cases "category f \<in> category ` set fs")
  case True
  then show ?thesis
    by (simp add: cluster_step_def map_of_keyed map_entry_keyed first_occurrences_snoc
        members_snoc)
next
  case False
  let ?ks = "first_occurrences (map category fs)"
  from False have no_key: "category f \<notin> set ?ks" by simp
  from False have empty: "members (category f) fs = []" by (rule members_empty)
  have old_keys: "map (\<lambda>k. (k, members k (fs @ [f]))) ?ks = map (\<lambda>k. (k, members k fs)) ?ks"
    using no_key by (intro map_cong) (auto simp: members_snoc)
  have "cluster_step (map (\<lambda>k. (k, members k fs)) ?ks) (Some f) =
          map (\<lambda>k. (k, members k fs)) ?ks @ [(category f, [f])]"
    using no_key
    by (simp add: cluster_step_def map_of_keyed update_keyed_new map_entry_keyed_new)
  moreover have "first_occurrences (map category (fs @ [f])) = ?ks @ [category f]"
    using False by (simp add: first_occurrences_snoc)
  ultimately show ?thesis
    using old_keys empty by (simp add: members_snoc)
qed

lemma foldl_cluster_step:
  "foldl cluster_step [] es =
     map (\<lambda>k. (k, members k (present es))) (first_occurrences (map category (present es)))"
proof (induction es rule: rev_induct)
  case Nil
  then show ?case by simp
next
  case (snoc e es)
  show ?case
  proof (cases e)
    case None
    with snoc show ?thesis by (simp add: present_append cluster_step_def)
  next
    case (Some f)
    with snoc show ?thesis by (simp add: present_append cluster_step_keyed)
  qed
qed

text \<open>No list of the dictionary is empty, so the division never raises.\<close>

lemma make_clusters_keyed:
  "set ks \<subseteq> category ` set fs \<Longrightarrow>
     make_clusters (map (\<lambda>k. (k, members k fs)) ks) = Inr (map (cluster_of fs) ks)"
proof (induction ks)
  case Nil
  then show ?case by simp
next
  case (Cons k ks)
  then obtain f where "f \<in> set fs" "category f = k" by auto
  then have "members k fs \<noteq> []" by (auto simp: members_def filter_empty_conv)
  with Cons show ?case by (simp add: make_cluster_def cluster_of_def)
qed

lemma create_clusters_present: "create_clusters es = Inr (clusters_spec (present es))"
  by (simp add: create_clusters_def foldl_cluster_step make_clusters_keyed clusters_spec_def)

text \<open>
  Claim C2. Clustering a list of analysed FAQs returns, without raising, one cluster for
  each distinct category string (compared by equality of strings, so by case as well), in
  the order in which the categories first occur; a cluster holds the FAQs of its category,
  their number as its count and the arithmetic mean of their priorities as its average
  priority. Entries that are \<open>None\<close> are skipped. For two FAQs of category A with priority
  1 and one of category B with priority 5, the clusters are A with count 2 and average 1,
  then B with count 1 and average 5.
\<close>

theorem create_clusters_groups:
  "create_clusters (map Some fs) = Inr (clusters_spec fs)
   \<and> create_clusters es = Inr (clusters_spec (present es))
   \<and> map name (clusters_spec fs) = first_occurrences (map category fs)
   \<and> distinct (map name (clusters_spec fs))
   \<and> set (map name (clusters_spec fs)) = category ` set fs
   \<and> map name (clusters_spec [a\<lparr>category := ''faq''\<rparr>, b\<lparr>category := ''FAQ''\<rparr>]) =
       [''faq'', ''FAQ'']
   \<and> create_clusters
       [Some (a\<lparr>category := ''A'', priority := 1\<rparr>),
        Some (b\<lparr>category := ''A'', priority := 1\<rparr>),
        Some (c\<lparr>category := ''B'', priority := 5\<rparr>)] =
     Inr [\<lparr>name = ''A'',
           faqs = [a\<lparr>category := ''A'', priority := 1\<rparr>, b\<lparr>category := ''A'', priority := 1\<rparr>],
           count = 2, avg_priority = 1\<rparr>,
          \<lparr>name = ''B'', faqs = [c\<lparr>category := ''B'', priority := 5\<rparr>],
           count = 1, avg_priority = 5\<rparr>]"
proof -
  let ?example =
    "[a\<lparr>category := ''A'', priority := 1\<rparr>, b\<lparr>category := ''A'', priority := 1\<rparr>,
      c\<lparr>category := ''B'', priority := 5\<rparr>]"
  have names: "map name (clusters_spec fs) = first_occurrences (map category fs)"
    by (simp add: clusters_spec_def cluster_of_def comp_def)
  have spec: "clusters_spec ?example =
     [\<lparr>name = ''A'',
       faqs = [a\<lparr>category := ''A'', priority := 1\<rparr>, b\<lparr>category := ''A'', priority := 1\<rparr>],
       count = 2, avg_priority = 1\<rparr>,
      \<lparr>name = ''B'', faqs = [c\<lparr>category := ''B'', priority := 5\<rparr>],
       count = 1, avg_priority = 5\<rparr>]"
    by (simp add: clusters_spec_def cluster_of_def members_def)
  have "create_clusters (map Some ?example) = Inr (clusters_spec ?example)"
    by (simp only: create_clusters_present present_map_Some)
  with spec show ?thesis
    by (simp add: create_clusters_present names) (simp add: clusters_spec_def cluster_of_def)
qed

section \<open>Properties of the analysis and of the run\<close>

lemma analyze_faq_None_iff:
  "fst (analyze_faq_content env f w) = None \<longleftrightarrow> annotation_raises env f w"
  by (simp add: analyze_faq_content_def annotation_raises_def split: prod.splits sum.splits)

lemma analyze_faq_row:
  "map_option faq.truncate (fst (analyze_faq_content env f w)) =
     (if annotation_raises env f w then None else Some f)"
  by (simp add: analyze_faq_content_def annotation_raises_def faq.truncate_def
      split: prod.splits sum.splits)

lemma analyze_faq_Some_id:
  "fst (analyze_faq_content env f w) = Some a \<Longrightarrow> faq_id a = faq_id f"
  by (auto simp add: analyze_faq_content_def split: prod.splits sum.splits)

lemma analyze_loop_acc:
  "analyze_loop env fs acc w =
     (acc @ fst (analyze_loop env fs [] w), snd (analyze_loop env fs [] w))"
proof (induction fs arbitrary: acc w)
  case Nil
  then show ?case by simp
next
  case (Cons f fs)
  obtain r w1 where step: "analyze_faq_content env f w = (r, w1)"
    by (cases "analyze_faq_content env f w")
  show ?case
  proof (cases r)
    case None
    with step Cons.IH [of acc w1] Cons.IH [of "[]" w1] show ?thesis by simp
  next
    case (Some a)
    with step Cons.IH [of "acc @ [a]" w1] Cons.IH [of "[a]" w1] show ?thesis by simp
  qed
qed

lemma analyze_loop_Cons:
  "analyze_loop env (f # fs) [] w =
     (case analyze_faq_content env f w of
        (r, w1) \<Rightarrow>
          ((case r of None \<Rightarrow> [] | Some a \<Rightarrow> [a]) @ fst (analyze_loop env fs [] w1),
           snd (analyze_loop env fs [] w1)))"
proof -
  obtain r w1 where step: "analyze_faq_content env f w = (r, w1)"
    by (cases "analyze_faq_content env f w")
  show ?thesis
    using step analyze_loop_acc [of env fs "[the r]" w1]
    by (cases r) simp_all
qed

lemma analyze_loop_append:
  "analyze_loop env (fs @ gs) [] w =
     (fst (analyze_loop env fs [] w) @
        fst (analyze_loop env gs [] (snd (analyze_loop env fs [] w))),
      snd (analyze_loop env gs [] (snd (analyze_loop env fs [] w))))"
proof (induction fs arbitrary: w)
  case Nil
  then show ?case by simp
next
  case (Cons f fs)
  show ?case
    by (simp only: append_Cons analyze_loop_Cons Cons.IH split: prod.splits)
       (simp split: prod.splits)
qed

lemma analyze_loop_ids:
  "faq_id ` set (fst (analyze_loop env fs [] w)) \<subseteq> faq_id ` set fs"
proof (induction fs arbitrary: w)
  case Nil
  then show ?case by simp
next
  case (Cons f fs)
  obtain r w1 where step: "analyze_faq_content env f w = (r, w1)"
    by (cases "analyze_faq_content env f w")
  show ?case
  proof (cases r)
    case None
    with step Cons.IH [of w1] show ?thesis
      by (auto simp add: analyze_loop_Cons simp del: analyze_loop.simps)
  next
    case (Some a)
    with step have "faq_id a = faq_id f" by (simp add: analyze_faq_Some_id [of env f w a])
    with Some step Cons.IH [of w1] show ?thesis
      by (auto simp add: analyze_loop_Cons simp del: analyze_loop.simps)
  qed
qed

lemma sum_length_members:
  "finite K \<Longrightarrow> category ` set fs \<subseteq> K \<Longrightarrow> (\<Sum>k\<in>K. length (members k fs)) = length fs"
proof (induction fs)
  case Nil
  then show ?case by (simp add: members_def)
next
  case (Cons f fs)
  have "(\<Sum>k\<in>K. length (members k (f # fs))) =
        (\<Sum>k\<in>K. (if k = category f then 1 else 0) + length (members k fs))"
    by (intro sum.cong) (auto simp: members_def)
  also have "\<dots> = (\<Sum>k\<in>K. if k = category f then 1 else 0) + (\<Sum>k\<in>K. length (members k fs))"
    by (simp add: sum.distrib)
  also have "\<dots> = 1 + length fs"
    using Cons by simp
  finally show ?case by simp
qed

lemma sum_list_int: "sum_list (map (\<lambda>k. int (g k)) ks) = int (sum_list (map g ks))"
  by (induction ks) simp_all

lemma sum_count_clusters_spec: "sum_list (map count (clusters_spec fs)) = int (length fs)"
proof -
  let ?ks = "first_occurrences (map category fs)"
  have "sum_list (map count (clusters_spec fs)) = int (sum_list (map (\<lambda>k. length (members k fs)) ?ks))"
    by (simp add: clusters_spec_def cluster_of_def comp_def sum_list_int)
  also have "sum_list (map (\<lambda>k. length (members k fs)) ?ks) = (\<Sum>k\<in>set ?ks. length (members k fs))"
    by (simp add: sum_list_distinct_conv_sum_set)
  also have "\<dots> = length fs"
    by (rule sum_length_members) simp_all
  finally show ?thesis .
qed

lemma faqs_clusters_spec: "c \<in> set (clusters_spec fs) \<Longrightarrow> set (faqs c) \<subseteq> set fs"
  by (auto simp add: clusters_spec_def cluster_of_def members_def)

lemma run_clustering_loaded:
  assumes "load_faqs env w = (Inr rows, w0)"
    and "analyze_loop env rows [] w0 = (kept, w1)"
  shows "run_clustering env self w =
     (case save_results env
             (self\<lparr>self_clusters := clusters_spec kept,
                   self_gaps := identify_gaps (clusters_spec kept)\<rparr>)
             (generate_recommendations (format_1f env) (identify_gaps (clusters_spec kept))) w1 of
        (Inl e, w2) \<Rightarrow>
          (Inl e, self\<lparr>self_clusters := clusters_spec kept,
                        self_gaps := identify_gaps (clusters_spec kept)\<rparr>, w2)
      | (Inr r, w2) \<Rightarrow>
          (Inr r, self\<lparr>self_clusters := clusters_spec kept,
                        self_gaps := identify_gaps (clusters_spec kept)\<rparr>, w2))"
  using assms
  by (simp add: run_clustering_def create_clusters_present Let_def split: prod.splits sum.splits)

lemma save_results_Inr:
  "fst (save_results env self recs w) = Inr r \<Longrightarrow> \<exists>t. r = results_dict self recs t"
  by (auto simp add: save_results_def Let_def split: prod.splits sum.splits)

lemma save_results_written:
  assumes "\<And>path r v. fst (write_json env path r v) = Inr ()"
  shows "fst (save_results env self recs w) = Inr (results_dict self recs (fst (now env w)))"
proof -
  obtain t1 w1 where n1: "now env w = (t1, w1)" by (cases "now env w")
  obtain t2 w2 where n2: "now env w1 = (t2, w2)" by (cases "now env w1")
  obtain u w3 where wr:
    "write_json env (''clustering_results_'' @ file_stamp t2 @ ''.json'')
       (results_dict self recs t1) w2 = (u, w3)"
    by (cases "write_json env (''clustering_results_'' @ file_stamp t2 @ ''.json'')
       (results_dict self recs t1) w2")
  with assms [of "''clustering_results_'' @ file_stamp t2 @ ''.json''" "results_dict self recs t1" w2]
  have "u = Inr ()" by simp
  with n1 n2 wr show ?thesis by (simp add: save_results_def)
qed

lemma run_clustering_Inr:
  assumes "fst (run_clustering env self w) = Inr r"
  shows "\<exists>self2 recs t. r = results_dict self2 recs t"
proof -
  from assms have "\<exists>self2 recs w1 w2. save_results env self2 recs w1 = (Inr r, w2)"
    by (auto simp add: run_clustering_def Let_def split: prod.splits sum.splits)
  then obtain self2 recs w1 w2 where "save_results env self2 recs w1 = (Inr r, w2)"
    by blast
  then have "fst (save_results env self2 recs w1) = Inr r" by simp
  then show ?thesis by (blast dest: save_results_Inr)
qed

text \<open>
  Claim C4. In the report that \<open>save_results\<close> writes, alone or as the last step of a
  whole run, the summary's \<open>total_faqs\<close> is the sum of the clusters' counts,
  \<open>total_clusters\<close> the number of clusters and \<open>total_gaps\<close> the number of gaps.
\<close>

theorem saved_report_summary:
  assumes "fst (save_results env self recs w) = Inr r \<or> fst (run_clustering env self w) = Inr r"
  shows "total_faqs (summary r) = sum_list (map count (clusters r))
       \<and> total_clusters (summary r) = int (length (clusters r))
       \<and> total_gaps (summary r) = int (length (gaps r))"
proof -
  from assms obtain self2 recs2 t where "r = results_dict self2 recs2 t"
    by (blast dest: save_results_Inr run_clustering_Inr)
  then show ?thesis by (simp add: results_dict_def)
qed

text \<open>
  With the annotation calls of services/openai.py as collaborators, no annotation call
  raises, so every row is analysed and kept.
\<close>

lemma openai_wrappers_return:
  "\<exists>j. fst (extract_entities_openai m acreate loads txt w) = Inr j"
  "\<exists>j. fst (analyze_sentiment_openai m acreate loads txt w) = Inr j"
  by (simp_all add: extract_entities_openai_def analyze_sentiment_openai_def
      split: prod.splits sum.splits list.splits)

lemma openai_wrappers_keep_rows:
  assumes "extract_entities env = extract_entities_openai m acreate loads"
    and "analyze_sentiment env = analyze_sentiment_openai m acreate loads"
  shows "\<not> annotation_raises env f w"
proof -
  let ?txt = "question f @ '' '' @ answer f"
  obtain r1 w1 where e1: "extract_entities_openai m acreate loads ?txt w = (r1, w1)"
    by (cases "extract_entities_openai m acreate loads ?txt w")
  with openai_wrappers_return(1) [of m acreate loads ?txt w] obtain j1 where "r1 = Inr j1"
    by auto
  moreover obtain r2 w2 where e2: "analyze_sentiment_openai m acreate loads ?txt w1 = (r2, w2)"
    by (cases "analyze_sentiment_openai m acreate loads ?txt w1")
  moreover from e2 openai_wrappers_return(2) [of m acreate loads ?txt w1] obtain j2
    where "r2 = Inr j2" by auto
  ultimately show ?thesis
    using assms e1 by (simp add: annotation_raises_def)
qed

text \<open>
  Claim C3. Let the rows load, and let an annotation call raise while the row \<open>f\<close> is
  analysed. Then the analysis of \<open>f\<close> returns \<open>None\<close>; the analysed list is what the rows
  before \<open>f\<close> and the rows after \<open>f\<close> contribute, and with distinct row ids it holds no
  record with the id of \<open>f\<close>; when the file write returns, the run returns its report and
  raises nothing, no cluster of the report holds a record with the id of \<open>f\<close>, and
  \<open>total_faqs\<close> counts the kept records only. For every row: the analysis returns nothing
  when an annotation call raises and otherwise a record with all the fields of the row
  and the two annotations as the calls returned them; extraction is called once, and sentiment analysis once when extraction returned and not
  at all otherwise.
\<close>

theorem failed_analysis_drops_faq:
  assumes load: "load_faqs env w = (Inr (pre @ f # post), w0)"
    and before: "analyze_loop env pre [] w0 = (kept1, w1)"
    and raises: "annotation_raises env f w1"
    and after: "analyze_loop env post [] (snd (analyze_faq_content env f w1)) = (kept2, w2)"
    and ids: "distinct (map faq_id (pre @ f # post))"
    and written: "\<And>path r v. fst (write_json env path r v) = Inr ()"
  shows "fst (analyze_faq_content env f w1) = None
       \<and> analyze_loop env (pre @ f # post) [] w0 = (kept1 @ kept2, w2)
       \<and> faq_id f \<notin> faq_id ` set (kept1 @ kept2)
       \<and> (\<exists>r self1 w3.
             run_clustering env self w = (Inr r, self1, w3)
           \<and> clusters r = clusters_spec (kept1 @ kept2)
           \<and> (\<forall>c \<in> set (clusters r). faq_id f \<notin> faq_id ` set (faqs c))
           \<and> total_faqs (summary r) = int (length kept1) + int (length kept2))
       \<and> map_option faq.truncate (fst (analyze_faq_content env g v)) =
           (if annotation_raises env g v then None else Some g)
       \<and> map_option entities (fst (analyze_faq_content env g v)) =
           (if annotation_raises env g v then None
            else Some (projr (fst (extract_entities env (question g @ '' '' @ answer g) v))))
       \<and> map_option sentiment (fst (analyze_faq_content env g v)) =
           (if annotation_raises env g v then None
            else Some (projr (fst (analyze_sentiment env (question g @ '' '' @ answer g)
                   (snd (extract_entities env (question g @ '' '' @ answer g) v))))))
       \<and> snd (analyze_faq_content env g v) =
           (case extract_entities env (question g @ '' '' @ answer g) v of
              (Inl e, v1) \<Rightarrow> v1
            | (Inr ents, v1) \<Rightarrow> snd (analyze_sentiment env (question g @ '' '' @ answer g) v1))"
proof -
  have none: "fst (analyze_faq_content env f w1) = None"
    using raises by (simp add: analyze_faq_None_iff)
  obtain w1' where step: "analyze_faq_content env f w1 = (None, w1')"
    using none by (cases "analyze_faq_content env f w1") simp
  have loop: "analyze_loop env (pre @ f # post) [] w0 = (kept1 @ kept2, w2)"
    using before after step
    by (simp add: analyze_loop_append analyze_loop_Cons del: analyze_loop.simps)
  have "faq_id ` set kept1 \<subseteq> faq_id ` set pre"
    using analyze_loop_ids [of env pre w0] before by simp
  moreover have "faq_id ` set kept2 \<subseteq> faq_id ` set post"
    using analyze_loop_ids [of env post "snd (analyze_faq_content env f w1)"] after by simp
  ultimately have absent: "faq_id f \<notin> faq_id ` set (kept1 @ kept2)"
    using ids by auto
  let ?cs = "clusters_spec (kept1 @ kept2)"
  let ?self = "self\<lparr>self_clusters := ?cs, self_gaps := identify_gaps ?cs\<rparr>"
  let ?recs = "generate_recommendations (format_1f env) (identify_gaps ?cs)"
  obtain res w3 where saved: "save_results env ?self ?recs w2 = (res, w3)"
    by (cases "save_results env ?self ?recs w2")
  with save_results_written [OF written, of ?self ?recs w2]
  have res: "res = Inr (results_dict ?self ?recs (fst (now env w2)))" by simp
  let ?r = "results_dict ?self ?recs (fst (now env w2))"
  have run: "run_clustering env self w = (Inr ?r, ?self, w3)"
    using run_clustering_loaded [OF load loop, of self] saved res by simp
  have cl: "clusters ?r = ?cs" by (simp add: results_dict_def)
  have in_clusters: "\<forall>c \<in> set (clusters ?r). faq_id f \<notin> faq_id ` set (faqs c)"
    using absent faqs_clusters_spec [of _ "kept1 @ kept2"] unfolding cl by blast
  have total: "total_faqs (summary ?r) = int (length kept1) + int (length kept2)"
    by (simp add: results_dict_def sum_count_clusters_spec)
  have row: "map_option faq.truncate (fst (analyze_faq_content env g v)) =
           (if annotation_raises env g v then None else Some g)"
    by (rule analyze_faq_row)
  have ents: "map_option entities (fst (analyze_faq_content env g v)) =
           (if annotation_raises env g v then None
            else Some (projr (fst (extract_entities env (question g @ '' '' @ answer g) v))))"
    by (simp add: analyze_faq_content_def annotation_raises_def split: prod.splits sum.splits)
  have sent: "map_option sentiment (fst (analyze_faq_content env g v)) =
           (if annotation_raises env g v then None
            else Some (projr (fst (analyze_sentiment env (question g @ '' '' @ answer g)
                   (snd (extract_entities env (question g @ '' '' @ answer g) v))))))"
    by (simp add: analyze_faq_content_def annotation_raises_def split: prod.splits sum.splits)
  have once: "snd (analyze_faq_content env g v) =
           (case extract_entities env (question g @ '' '' @ answer g) v of
              (Inl e, v1) \<Rightarrow> v1
            | (Inr ents, v1) \<Rightarrow> snd (analyze_sentiment env (question g @ '' '' @ answer g) v1))"
    by (simp add: analyze_faq_content_def split: prod.splits sum.splits)
  from run cl in_clusters total have "\<exists>r self1 w3.
             run_clustering env self w = (Inr r, self1, w3)
           \<and> clusters r = clusters_spec (kept1 @ kept2)
           \<and> (\<forall>c \<in> set (clusters r). faq_id f \<notin> faq_id ` set (faqs c))
           \<and> total_faqs (summary r) = int (length kept1) + int (length kept2)"
    by blast
  with none loop absent row ents sent once show ?thesis by blast
qed

lemma example_strs: "str_int 1 = ''1''" "str_int 2 = ''2''" "str_int 3 = ''3''"
  by (simp_all add: str_int_def str_nat.simps digit_char_def)

text \<open>
  The example run: the second of three rows is dropped, the report has two clusters of
  one FAQ each.
\<close>

theorem failed_analysis_drops_faq_witness:
  "load_faqs example_env 0 =
     (Inr ([example_row 1 ''A'' 1] @ example_row 2 ''A'' 3 # [example_row 3 ''B'' 5]), 0)
   \<and> analyze_loop example_env [example_row 1 ''A'' 1] [] 0 = ([example_analyzed 1 ''A'' 1], 2)
   \<and> annotation_raises example_env (example_row 2 ''A'' 3) 2
   \<and> analyze_loop example_env [example_row 3 ''B'' 5] []
        (snd (analyze_faq_content example_env (example_row 2 ''A'' 3) 2)) =
      ([example_analyzed 3 ''B'' 5], 5)
   \<and> distinct (map faq_id ([example_row 1 ''A'' 1] @ example_row 2 ''A'' 3 # [example_row 3 ''B'' 5]))
   \<and> (\<forall>path r v. fst (write_json example_env path r v) = Inr ())
   \<and> fst (analyze_faq_content example_env (example_row 2 ''A'' 3) 2) = None
   \<and> analyze_loop example_env
        ([example_row 1 ''A'' 1] @ example_row 2 ''A'' 3 # [example_row 3 ''B'' 5]) [] 0 =
      ([example_analyzed 1 ''A'' 1, example_analyzed 3 ''B'' 5], 5)
   \<and> (\<exists>r self1 w3.
         run_clustering example_env \<lparr>self_clusters = [], self_gaps = []\<rparr> 0 = (Inr r, self1, w3)
       \<and> map name (clusters r) = [''A'', ''B'']
       \<and> map count (clusters r) = [1, 1]
       \<and> total_faqs (summary r) = 2)"
proof -
  have load: "load_faqs example_env 0 =
     (Inr ([example_row 1 ''A'' 1] @ example_row 2 ''A'' 3 # [example_row 3 ''B'' 5]), 0)"
    by (simp add: example_env_def)
  have before: "analyze_loop example_env [example_row 1 ''A'' 1] [] 0 =
      ([example_analyzed 1 ''A'' 1], 2)"
    by (simp add: example_env_def example_row_def example_analyzed_def analyze_faq_content_def
        example_strs)
  have raises: "annotation_raises example_env (example_row 2 ''A'' 3) 2"
    by (simp add: example_env_def example_row_def annotation_raises_def example_strs)
  have after: "analyze_loop example_env [example_row 3 ''B'' 5] []
        (snd (analyze_faq_content example_env (example_row 2 ''A'' 3) 2)) =
      ([example_analyzed 3 ''B'' 5], 5)"
    by (simp add: example_env_def example_row_def example_analyzed_def analyze_faq_content_def
        example_strs)
  have ids: "distinct (map faq_id
      ([example_row 1 ''A'' 1] @ example_row 2 ''A'' 3 # [example_row 3 ''B'' 5]))"
    by (simp add: example_row_def)
  have written: "fst (write_json example_env path r v) = Inr ()" for path r v
    by (simp add: example_env_def)
  have spec: "clusters_spec [example_analyzed 1 ''A'' 1, example_analyzed 3 ''B'' 5] =
      [cluster_of [example_analyzed 1 ''A'' 1, example_analyzed 3 ''B'' 5] ''A'',
       cluster_of [example_analyzed 1 ''A'' 1, example_analyzed 3 ''B'' 5] ''B'']"
    by (simp add: clusters_spec_def example_analyzed_def)
  have counts: "map count (clusters_spec [example_analyzed 1 ''A'' 1, example_analyzed 3 ''B'' 5]) = [1, 1]"
    "map name (clusters_spec [example_analyzed 1 ''A'' 1, example_analyzed 3 ''B'' 5]) = [''A'', ''B'']"
    unfolding spec by (simp_all add: cluster_of_def members_def example_analyzed_def)
  from failed_analysis_drops_faq [OF load before raises after ids written,
      of "\<lparr>self_clusters = [], self_gaps = []\<rparr>" "example_row 2 ''A'' 3" 2]
  show ?thesis
    using load before raises after ids written counts by auto
qed

text \<open>A saved report of two clusters of one FAQ each and one gap.\<close>

theorem saved_report_summary_witness:
  "(fst (save_results example_env
          \<lparr>self_clusters = clusters_spec [example_analyzed 1 ''A'' 1, example_analyzed 3 ''B'' 5],
            self_gaps = [Low_coverage ''A'' 1 5 ''d'']\<rparr> [''s''] 0) =
      Inr (results_dict
          \<lparr>self_clusters = clusters_spec [example_analyzed 1 ''A'' 1, example_analyzed 3 ''B'' 5],
            self_gaps = [Low_coverage ''A'' 1 5 ''d'']\<rparr> [''s'']
          \<lparr>isoformat = ''2024-01-01T00:00:00'', file_stamp = ''20240101_000000''\<rparr>))
   \<and> total_faqs (summary (results_dict
          \<lparr>self_clusters = clusters_spec [example_analyzed 1 ''A'' 1, example_analyzed 3 ''B'' 5],
            self_gaps = [Low_coverage ''A'' 1 5 ''d'']\<rparr> [''s'']
          \<lparr>isoformat = ''2024-01-01T00:00:00'', file_stamp = ''20240101_000000''\<rparr>)) = 2
   \<and> total_clusters (summary (results_dict
          \<lparr>self_clusters = clusters_spec [example_analyzed 1 ''A'' 1, example_analyzed 3 ''B'' 5],
            self_gaps = [Low_coverage ''A'' 1 5 ''d'']\<rparr> [''s'']
          \<lparr>isoformat = ''2024-01-01T00:00:00'', file_stamp = ''20240101_000000''\<rparr>)) = 2
   \<and> total_gaps (summary (results_dict
          \<lparr>self_clusters = clusters_spec [example_analyzed 1 ''A'' 1, example_analyzed 3 ''B'' 5],
            self_gaps = [Low_coverage ''A'' 1 5 ''d'']\<rparr> [''s'']
          \<lparr>isoformat = ''2024-01-01T00:00:00'', file_stamp = ''20240101_000000''\<rparr>)) = 1"
proof -
  let ?self = "\<lparr>self_clusters = clusters_spec [example_analyzed 1 ''A'' 1, example_analyzed 3 ''B'' 5],
            self_gaps = [Low_coverage ''A'' 1 5 ''d'']\<rparr>"
  let ?t = "\<lparr>isoformat = ''2024-01-01T00:00:00'', file_stamp = ''20240101_000000''\<rparr>"
  have saved: "fst (save_results example_env ?self [''s''] 0) = Inr (results_dict ?self [''s''] ?t)"
    by (simp add: save_results_def example_env_def)
  have cl: "map count (clusters (results_dict ?self [''s''] ?t)) = [1, 1]"
    by (simp add: results_dict_def clusters_spec_def cluster_of_def members_def example_analyzed_def)
  have gp: "gaps (results_dict ?self [''s''] ?t) = [Low_coverage ''A'' 1 5 ''d'']"
    by (simp add: results_dict_def)
  from saved_report_summary [of example_env ?self "[''s'']" 0 "results_dict ?self [''s''] ?t"] saved
  have "total_faqs (summary (results_dict ?self [''s''] ?t)) =
          sum_list (map count (clusters (results_dict ?self [''s''] ?t)))
      \<and> total_clusters (summary (results_dict ?self [''s''] ?t)) =
          int (length (map count (clusters (results_dict ?self [''s''] ?t))))
      \<and> total_gaps (summary (results_dict ?self [''s''] ?t)) =
          int (length (gaps (results_dict ?self [''s''] ?t)))"
    by simp
  then show ?thesis
    unfolding cl gp using saved by simp
qed

section \<open>Properties of the chat assistant\<close>

lemma foldl_snoc_append: "foldl (\<lambda>ms msg. ms @ [msg]) acc xs = acc @ xs"
  by (induction xs arbitrary: acc) simp_all

lemma build_messages_eq:
  "build_messages jd self msg ctx =
     \<lparr>role = ''system'', content = system_prompt self\<rparr> #
     last_ten (conversation_history self) @
     (if truthy ctx
      then [\<lparr>role = ''system'', content = ''User context: '' @ jd (the ctx)\<rparr>] else []) @
     [\<lparr>role = ''user'', content = msg\<rparr>]"
  by (simp add: build_messages_def Let_def foldl_snoc_append)

lemma last_ten_length: "length (last_ten xs) = min 10 (length xs)"
  by (simp add: last_ten_def)

lemma last_ten_suffix: "suffix (last_ten xs) xs"
  by (simp add: last_ten_def suffix_drop)

lemma get_response_history:
  "conversation_history (fst (snd (get_response m acreate jd self msg ctx w))) =
     conversation_history self \<or>
   (\<exists>reply. conversation_history (fst (snd (get_response m acreate jd self msg ctx w))) =
     conversation_history self @
       [\<lparr>role = ''user'', content = msg\<rparr>, \<lparr>role = ''assistant'', content = reply\<rparr>])"
  by (simp add: get_response_def split: prod.splits sum.splits list.splits)

lemma get_response_prefix:
  "prefix (conversation_history self)
     (conversation_history (fst (snd (get_response m acreate jd self msg ctx w))))"
  using get_response_history [of m acreate jd self msg ctx w] by auto

lemma get_response_success:
  assumes "acreate \<lparr>model = m, messages = build_messages jd self msg ctx,
                    max_tokens = 500, temperature = 7 / 10\<rparr> w = (Inr (reply # others), w1)"
  shows "get_response m acreate jd self msg ctx w =
     (reply,
      self\<lparr>conversation_history :=
             conversation_history self @
             [\<lparr>role = ''user'', content = msg\<rparr>, \<lparr>role = ''assistant'', content = reply\<rparr>]\<rparr>,
      w1)"
  using assms by (simp add: get_response_def)

lemma get_responses_prefix:
  "prefix (conversation_history self)
     (conversation_history (fst (snd (get_responses m acreate jd self msgs w))))"
proof (induction msgs arbitrary: self w)
  case Nil
  then show ?case by simp
next
  case (Cons x msgs)
  obtain reply self1 w1 where step: "get_response m acreate jd self x None w = (reply, self1, w1)"
    by (cases "get_response m acreate jd self x None w") auto
  have "prefix (conversation_history self) (conversation_history self1)"
    using get_response_prefix [of self m acreate jd x None w] step by simp
  moreover have "prefix (conversation_history self1)
     (conversation_history (fst (snd (get_responses m acreate jd self1 msgs w1))))"
    by (rule Cons.IH)
  moreover obtain replies self2 w2 where rest:
    "get_responses m acreate jd self1 msgs w1 = (replies, self2, w2)"
    by (cases "get_responses m acreate jd self1 msgs w1") auto
  ultimately show ?case
    using step by (auto elim: prefix_order.trans)
qed

lemma get_responses_length:
  assumes ok: "\<And>req v. \<exists>reply others v1. acreate req v = (Inr (reply # others), v1)"
  shows "length (conversation_history (fst (snd (get_responses m acreate jd self msgs w)))) =
     length (conversation_history self) + 2 * length msgs"
proof (induction msgs arbitrary: self w)
  case Nil
  then show ?case by simp
next
  case (Cons x msgs)
  let ?req = "\<lparr>model = m, messages = build_messages jd self x None,
                max_tokens = 500, temperature = 7 / 10\<rparr>"
  from ok [of ?req w] obtain reply others w1 where
    call: "acreate ?req w = (Inr (reply # others), w1)" by blast
  let ?self1 = "self\<lparr>conversation_history :=
             conversation_history self @
             [\<lparr>role = ''user'', content = x\<rparr>, \<lparr>role = ''assistant'', content = reply\<rparr>]\<rparr>"
  have step: "get_response m acreate jd self x None w = (reply, ?self1, w1)"
    using call by (rule get_response_success)
  obtain replies self2 w2 where rest:
    "get_responses m acreate jd ?self1 msgs w1 = (replies, self2, w2)"
    by (cases "get_responses m acreate jd ?self1 msgs w1") auto
  show ?case
    using step rest Cons.IH [of ?self1 w1] by simp
qed

text \<open>
  Claim C8. The messages sent to the service are the system prompt, the last ten entries
  of the stored history (all of them when there are fewer), the user context when there
  is one, and the user's message. The stored history is never shortened: a call that
  gets an answer appends the user's message and the assistant's reply to it, and after
  any call, and after any sequence of calls, the old history is a prefix of the new one.
  When every call is answered, the history grows by two entries for each message, without
  bound.
\<close>

theorem history_trimmed_only_in_prompt:
  "build_messages jd self msg ctx =
     \<lparr>role = ''system'', content = system_prompt self\<rparr> #
     last_ten (conversation_history self) @
     (if truthy ctx
      then [\<lparr>role = ''system'', content = ''User context: '' @ jd (the ctx)\<rparr>] else []) @
     [\<lparr>role = ''user'', content = msg\<rparr>]
   \<and> last_ten (conversation_history self) =
       drop (length (conversation_history self) - 10) (conversation_history self)
   \<and> length (last_ten (conversation_history self)) = min 10 (length (conversation_history self))
   \<and> suffix (last_ten (conversation_history self)) (conversation_history self)
   \<and> (acreate \<lparr>model = m, messages = build_messages jd self msg ctx,
                 max_tokens = 500, temperature = 7 / 10\<rparr> w = (Inr (reply # others), w1) \<longrightarrow>
        get_response m acreate jd self msg ctx w =
          (reply,
           self\<lparr>conversation_history :=
                  conversation_history self @
                  [\<lparr>role = ''user'', content = msg\<rparr>,
                   \<lparr>role = ''assistant'', content = reply\<rparr>]\<rparr>,
           w1))
   \<and> prefix (conversation_history self)
        (conversation_history (fst (snd (get_response m acreate jd self msg ctx w))))
   \<and> prefix (conversation_history self)
        (conversation_history (fst (snd (get_responses m acreate jd self msgs w))))
   \<and> ((\<forall>req v. \<exists>r rs v1. acreate req v = (Inr (r # rs), v1)) \<longrightarrow>
        length (conversation_history (fst (snd (get_responses m acreate jd self msgs w)))) =
          length (conversation_history self) + 2 * length msgs)"
  using get_responses_length [of acreate m jd self msgs w]
  by (simp add: build_messages_eq last_ten_length last_ten_suffix get_response_success
      get_response_prefix get_responses_prefix) (simp add: last_ten_def)

text \<open>
  Claim C9. When the chat-completion call raises, \<open>get_response\<close> returns the apology
  sentence ending in the text of the exception, raises nothing, and leaves the assistant,
  and so its stored history, as it was.
\<close>

theorem failed_completion_apology:
  assumes "acreate \<lparr>model = m, messages = build_messages jd self msg ctx,
                    max_tokens = 500, temperature = 7 / 10\<rparr> w = (Inl e, w1)"
  shows "get_response m acreate jd self msg ctx w =
           (''I apologize, but I'' @ [apostrophe] @
            ''m having trouble processing your request right now. Please try again later. Error: '' @
            str_exn e, self, w1)
       \<and> conversation_history (fst (snd (get_response m acreate jd self msg ctx w))) =
           conversation_history self"
  using assms by (simp add: get_response_def apology_def)

text \<open>
  Twelve stored messages: ten of them go into the prompt, and three answered calls leave
  eighteen stored.
\<close>

theorem history_trimmed_only_in_prompt_witness:
  "example_chat
     \<lparr>model = ''gpt-4o-mini'',
      messages = build_messages example_dumps example_assistant ''hi'' None,
      max_tokens = 500, temperature = 7 / 10\<rparr> 0 = (Inr (''Good morning'' # []), 1)
   \<and> (\<forall>req v. \<exists>r rs v1. example_chat req v = (Inr (r # rs), v1))
   \<and> length (conversation_history example_assistant) = 12
   \<and> length (build_messages example_dumps example_assistant ''hi'' None) = 12
   \<and> get_response ''gpt-4o-mini'' example_chat example_dumps example_assistant ''hi'' None 0 =
       (''Good morning'',
        example_assistant\<lparr>conversation_history :=
          conversation_history example_assistant @
          [\<lparr>role = ''user'', content = ''hi''\<rparr>,
           \<lparr>role = ''assistant'', content = ''Good morning''\<rparr>]\<rparr>,
        1)
   \<and> length (conversation_history (fst (snd
        (get_responses ''gpt-4o-mini'' example_chat example_dumps example_assistant
           [''a'', ''b'', ''c''] 0)))) = 18"
proof -
  have call: "example_chat
     \<lparr>model = ''gpt-4o-mini'',
      messages = build_messages example_dumps example_assistant ''hi'' None,
      max_tokens = 500, temperature = 7 / 10\<rparr> 0 = (Inr (''Good morning'' # []), 1)"
    by (simp add: example_chat_def)
  have always: "\<forall>req v. \<exists>r rs v1. example_chat req v = (Inr (r # rs), v1)"
    by (simp add: example_chat_def)
  have len: "length (conversation_history example_assistant) = 12"
    by (simp add: example_assistant_def)
  from history_trimmed_only_in_prompt [of example_dumps example_assistant "''hi''" None
      example_chat "''gpt-4o-mini''" 0 "''Good morning''" "[]" 1 "[''a'', ''b'', ''c'']"]
  show ?thesis
    using call always len by simp
qed

text \<open>A call that raises "rate limit".\<close>

theorem failed_completion_apology_witness:
  "failing_chat
     \<lparr>model = ''gpt-4o-mini'',
      messages = build_messages example_dumps example_assistant ''hi'' None,
      max_tokens = 500, temperature = 7 / 10\<rparr> 0 = (Inl (Exception ''rate limit''), 1)
   \<and> get_response ''gpt-4o-mini'' failing_chat example_dumps example_assistant ''hi'' None 0 =
       (''I apologize, but I'' @ [apostrophe] @
        ''m having trouble processing your request right now. Please try again later. Error: '' @
        ''rate limit'', example_assistant, 1)"
proof -
  have call: "failing_chat
     \<lparr>model = ''gpt-4o-mini'',
      messages = build_messages example_dumps example_assistant ''hi'' None,
      max_tokens = 500, temperature = 7 / 10\<rparr> 0 = (Inl (Exception ''rate limit''), 1)"
    by (simp add: failing_chat_def)
  from failed_completion_apology [where acreate = failing_chat and m = "''gpt-4o-mini''"
      and jd = example_dumps and self = example_assistant and msg = "''hi''" and ctx = None
      and w = 0 and e = "Exception ''rate limit''" and ?w1.0 = 1] call
  show ?thesis by simp
qed

section \<open>Properties of speech synthesis and audio validation\<close>

lemma validated_voice:
  "voice (validated_request txt v s) = (if v \<in> set valid_voices then v else ''alloy'')"
  by (simp add: validated_request_def Let_def)

lemma validated_speed_not_nan:
  "s \<noteq> NaN \<Longrightarrow>
     speed (validated_request txt v s) = (if in_speed_range s then s else Finite 1)"
  by (cases s) (auto simp add: validated_request_def Let_def in_speed_range_def)

text \<open>
  Claim C6 at the speed NaN. NaN is not inside the interval from 0.25 to 4.0, and both
  comparisons of the validation step are false for it, so the speed is not reset to 1.0:
  the request sent to the synthesis service carries the speed NaN.
\<close>

theorem nan_speed_not_reset:
  "\<not> in_speed_range NaN
   \<and> speed (validated_request txt v NaN) = NaN
   \<and> speed (validated_request txt v NaN) \<noteq> Finite 1
   \<and> text_to_speech acreate txt ''alloy'' NaN w =
       (case acreate \<lparr>speech_model = ''tts-1'', voice = ''alloy'', input_text = txt,
                      speed = NaN\<rparr> w of
          (Inl e, w1) \<Rightarrow> ([], w1)
        | (Inr audio_data, w1) \<Rightarrow> (audio_data, w1))"
  by (simp add: in_speed_range_def validated_request_def text_to_speech_def valid_voices_def)

text \<open>
  Claim C7. Validation returns true exactly for the buffers that are not empty and not
  longer than 25 * 1024 * 1024 bytes, whether or not they start with one of the five
  headers: false for the empty buffer and for a buffer one byte over the limit, true at
  the limit, true for a buffer that starts with a header and true for one that starts
  with none.
\<close>

theorem validate_audio_format_size_only:
  "validate_audio_format d = (d \<noteq> [] \<and> length d \<le> 25 * 1024 * 1024)
   \<and> validate_audio_format [] = False
   \<and> validate_audio_format (replicate (25 * 1024 * 1024) c) = True
   \<and> validate_audio_format (replicate (25 * 1024 * 1024 + 1) c) = False
   \<and> header_loop audio_headers (''RIFF'' @ rest) = True
   \<and> header_loop audio_headers (''ID3'' @ rest) = True
   \<and> header_loop audio_headers ([CHR 0xFF, CHR 0xFB] @ rest) = True
   \<and> header_loop audio_headers (''OggS'' @ rest) = True
   \<and> header_loop audio_headers (''fLaC'' @ rest) = True
   \<and> header_loop audio_headers ''abcd'' = False
   \<and> validate_audio_format (''RIFF'' @ replicate 100 c) = True
   \<and> validate_audio_format ''abcd'' = True"
  by (simp add: validate_audio_format_def audio_headers_def)

end
